theory Spec2Isabelle
  imports Main
begin

chapter \<open>The model\<close>

section \<open>Video identifiers: base64 of the remote path\<close>

text \<open>
  \<^verbatim>\<open>listVideosFromServer\<close> (VideoSSHManager.js, line 93) derives the identifier of a
  video as \<^verbatim>\<open>Buffer.from(fullPath).toString('base64')\<close>; every route of
  videos-ssh.js recovers the path with \<^verbatim>\<open>Buffer.from(videoId, 'base64').toString()\<close>.

  A path is modelled by the bytes of its UTF-8 form, as a \<open>string\<close> of 8-bit
  characters; \<^verbatim>\<open>Buffer.from(fullPath)\<close> is then the list of the byte values and
  \<^verbatim>\<open>.toString()\<close> reads byte values back as characters. Bytes are natural numbers
  below 256. Every well-formed string of the runtime is given by its UTF-8 bytes, and
  the paths of the listing are well formed, being cut from the decoded output of the
  remote command. An identifier is a string of 8-bit characters as well.
\<close>

type_synonym byte = nat

definition bytes_of :: "string \<Rightarrow> byte list" where
  "bytes_of s = map of_char s"

definition string_of_bytes :: "byte list \<Rightarrow> string" where
  "string_of_bytes bs = map char_of bs"

text \<open>
  The base64 alphabet of RFC 4648, by sextet value: \<open>A\<close> to \<open>Z\<close> for 0 to 25,
  \<open>a\<close> to \<open>z\<close> for 26 to 51, the digits for 52 to 61, then \<open>+\<close> and \<open>/\<close>.
\<close>

definition base64_char :: "nat \<Rightarrow> char" where
  "base64_char n =
     (let k = n mod 64 in
      if k < 26 then char_of (65 + k)
      else if k < 52 then char_of (97 + (k - 26))
      else if k < 62 then char_of (48 + (k - 52))
      else if k = 62 then CHR ''+''
      else CHR ''/'')"

text \<open>
  The encoder: three bytes give four sextets; a tail of two bytes gives three sextets
  and one \<open>=\<close>, a tail of one byte two sextets and \<open>==\<close>.
\<close>

fun base64_encode :: "byte list \<Rightarrow> string" where
  "base64_encode [] = []"
| "base64_encode [a] =
     [base64_char (a div 4), base64_char ((a mod 4) * 16), CHR ''='', CHR ''='']"
| "base64_encode [a, b] =
     [base64_char (a div 4), base64_char ((a mod 4) * 16 + b div 16),
      base64_char ((b mod 16) * 4), CHR ''='']"
| "base64_encode (a # b # c # rest) =
     [base64_char (a div 4), base64_char ((a mod 4) * 16 + b div 16),
      base64_char ((b mod 16) * 4 + c div 64), base64_char (c mod 64)]
     @ base64_encode rest"

text \<open>
  The decoder of \<^verbatim>\<open>Buffer.from(s, 'base64')\<close> is lenient. Its table \<open>unbase64\<close> knows the
  standard alphabet and the URL-safe characters \<open>-\<close> and \<open>_\<close>; every other character
  is skipped, and decoding stops at the first \<open>=\<close>. Sextets are consumed in groups of
  four, each giving three bytes; a last group of three sextets gives two bytes, of two
  sextets one byte, and a single left-over sextet gives nothing.
\<close>

definition unbase64 :: "char \<Rightarrow> nat option" where
  "unbase64 ch =
     (let x = (of_char ch :: nat) in
      if 65 \<le> x \<and> x \<le> 90 then Some (x - 65)
      else if 97 \<le> x \<and> x \<le> 122 then Some (x - 71)
      else if 48 \<le> x \<and> x \<le> 57 then Some (x + 4)
      else if x = 43 \<or> x = 45 then Some 62
      else if x = 47 \<or> x = 95 then Some 63
      else None)"

fun sextets :: "string \<Rightarrow> nat list" where
  "sextets [] = []"
| "sextets (ch # cs) =
     (if ch = CHR ''='' then []
      else case unbase64 ch of
             None \<Rightarrow> sextets cs
           | Some v \<Rightarrow> v # sextets cs)"

fun decode_groups :: "nat list \<Rightarrow> byte list" where
  "decode_groups (h0 # h1 # h2 # h3 # rest) =
     [h0 * 4 + h1 div 16, (h1 mod 16) * 16 + h2 div 4, (h2 mod 4) * 64 + h3]
     @ decode_groups rest"
| "decode_groups [h0, h1, h2] = [h0 * 4 + h1 div 16, (h1 mod 16) * 16 + h2 div 4]"
| "decode_groups [h0, h1] = [h0 * 4 + h1 div 16]"
| "decode_groups _ = []"

definition base64_decode :: "string \<Rightarrow> byte list" where
  "base64_decode s = decode_groups (sextets s)"

text \<open>The two directions as the code composes them.\<close>

definition encode_id :: "string \<Rightarrow> string" where
  "encode_id fullPath = base64_encode (bytes_of fullPath)"

definition decode_id :: "string \<Rightarrow> string" where
  "decode_id videoId = string_of_bytes (base64_decode videoId)"

section \<open>The stream route\<close>

subsection \<open>String and number primitives of the runtime\<close>

text \<open>
  \<^verbatim>\<open>s.includes(sub)\<close>, \<^verbatim>\<open>s.replace(/pat/, rep)\<close> for a pattern without
  metacharacters (the first occurrence only), and \<^verbatim>\<open>s.split(d)\<close> for a separator of
  one character.
\<close>

fun starts_with :: "string \<Rightarrow> string \<Rightarrow> bool" where
  "starts_with [] s = True"
| "starts_with (p # ps) [] = False"
| "starts_with (p # ps) (c # cs) = (p = c \<and> starts_with ps cs)"

fun str_includes :: "string \<Rightarrow> string \<Rightarrow> bool" where
  "str_includes [] sub = (sub = [])"
| "str_includes (c # cs) sub = (starts_with sub (c # cs) \<or> str_includes cs sub)"

fun replace_first :: "string \<Rightarrow> string \<Rightarrow> string \<Rightarrow> string" where
  "replace_first pat rep [] = (if pat = [] then rep else [])"
| "replace_first pat rep (c # cs) =
     (if starts_with pat (c # cs) then rep @ drop (length pat) (c # cs)
      else c # replace_first pat rep cs)"

fun split_on :: "char \<Rightarrow> string \<Rightarrow> string list" where
  "split_on d [] = [[]]"
| "split_on d (c # cs) =
     (if c = d then [] # split_on d cs
      else case split_on d cs of
             [] \<Rightarrow> [[c]]
           | p # ps \<Rightarrow> (c # p) # ps)"

text \<open>
  A number of the runtime is a double. The route makes its numbers with \<^verbatim>\<open>parseInt\<close>
  and with additions and subtractions of integers, so a number here is \<open>NaN\<close>, an
  infinity, or an integer that a double represents (\<open>Num\<close>); the negative zero is
  not told from zero.

  Every integer up to \<open>2^53\<close> is a double. A larger one is rounded to 53 significant
  bits, to the nearest double and in a tie to the one with the even significand; from
  \<open>2^1024 - 2^970\<close> on, halfway between the largest double and \<open>2^1024\<close>, the
  result is infinity.
\<close>

datatype jsnum = NaN | Num int | PosInfinity | NegInfinity

function bit_length :: "nat \<Rightarrow> nat" where
  "bit_length n = (if n = 0 then 0 else Suc (bit_length (n div 2)))"
  by pat_completeness auto
termination
  by (relation "measure id") auto

declare bit_length.simps [simp del]

definition round_to_53_bits :: "nat \<Rightarrow> nat" where
  "round_to_53_bits n =
     (let e = bit_length n - 53;
          q = n div 2 ^ e;
          r = n mod 2 ^ e
      in if 2 * r > 2 ^ e \<or> (2 * r = 2 ^ e \<and> odd q) then (q + 1) * 2 ^ e else q * 2 ^ e)"

definition infinity_threshold :: nat where
  "infinity_threshold = 2 ^ 1024 - 2 ^ 970"

definition to_double :: "nat \<Rightarrow> jsnum" where
  "to_double n =
     (if n \<le> 2 ^ 53 then Num (int n)
      else if infinity_threshold \<le> n then PosInfinity
      else Num (int (round_to_53_bits n)))"

fun js_neg :: "jsnum \<Rightarrow> jsnum" where
  "js_neg NaN = NaN"
| "js_neg (Num i) = Num (- i)"
| "js_neg PosInfinity = NegInfinity"
| "js_neg NegInfinity = PosInfinity"

definition number_of_int :: "int \<Rightarrow> jsnum" where
  "number_of_int i = (if 0 \<le> i then to_double (nat i) else js_neg (to_double (nat (- i))))"

text \<open>The sum and the difference of two numbers: the exact result, rounded.\<close>

fun js_add :: "jsnum \<Rightarrow> jsnum \<Rightarrow> jsnum" where
  "js_add (Num a) (Num b) = number_of_int (a + b)"
| "js_add NaN _ = NaN"
| "js_add _ NaN = NaN"
| "js_add PosInfinity NegInfinity = NaN"
| "js_add NegInfinity PosInfinity = NaN"
| "js_add PosInfinity _ = PosInfinity"
| "js_add _ PosInfinity = PosInfinity"
| "js_add NegInfinity _ = NegInfinity"
| "js_add _ NegInfinity = NegInfinity"

definition js_sub :: "jsnum \<Rightarrow> jsnum \<Rightarrow> jsnum" where
  "js_sub a b = js_add a (js_neg b)"

text \<open>
  \<^verbatim>\<open>parseInt(s, 10)\<close> skips leading white space, reads an optional sign and then the
  longest run of decimal digits; with no digit the result is \<open>NaN\<close>, otherwise the
  number of the integer that the digits write, which is infinity from \<open>2^1024 - 2^970\<close>
  on, so for every run of 310 digits without leading zeros. Header values reach the
  route as Latin-1 text, so the white space characters are the codes 9 to 13, 32 and 160.
\<close>

definition is_js_space :: "char \<Rightarrow> bool" where
  "is_js_space c = ((of_char c :: nat) \<in> {9, 10, 11, 12, 13, 32, 160})"

definition is_digit :: "char \<Rightarrow> bool" where
  "is_digit c = (48 \<le> (of_char c :: nat) \<and> (of_char c :: nat) \<le> 57)"

definition digit_val :: "char \<Rightarrow> nat" where
  "digit_val c = of_char c - 48"

definition digits_val :: "string \<Rightarrow> nat" where
  "digits_val ds = foldl (\<lambda>acc c. 10 * acc + digit_val c) 0 ds"

definition parseInt10 :: "string \<Rightarrow> jsnum" where
  "parseInt10 s =
     (let t = dropWhile is_js_space s;
          negative = starts_with ''-'' t;
          u = (if starts_with ''+'' t \<or> starts_with ''-'' t then tl t else t);
          ds = takeWhile is_digit u
      in if ds = [] then NaN
         else if negative then js_neg (to_double (digits_val ds))
         else to_double (digits_val ds))"

text \<open>
  \<^verbatim>\<open>fs.createReadStream(path, {start, end})\<close> validates its options when it is called
  and throws when they are refused: \<open>start\<close> must be an integer from 0 to \<open>2^53 - 1\<close>;
  an \<open>end\<close> that is infinity is taken as it is (it is the default of the option), and
  any other \<open>end\<close> must be an integer from 0 to \<open>2^53 - 1\<close> and not below \<open>start\<close>.
  The offsets are not compared with the size of the file.
\<close>

definition max_safe_integer :: int where
  "max_safe_integer = 2 ^ 53 - 1"

fun valid_position :: "jsnum \<Rightarrow> bool" where
  "valid_position (Num i) = (0 \<le> i \<and> i \<le> max_safe_integer)"
| "valid_position _ = False"

fun createReadStream_ok :: "jsnum \<Rightarrow> jsnum \<Rightarrow> bool" where
  "createReadStream_ok start PosInfinity = valid_position start"
| "createReadStream_ok (Num s) (Num e) =
     (valid_position (Num s) \<and> valid_position (Num e) \<and> s \<le> e)"
| "createReadStream_ok _ _ = False"

subsection \<open>Responses\<close>

text \<open>
  The JSON bodies of the route, by the place that sends them: \<open>AccessDenied\<close> is
  "Acesso negado ao video" (line 343), \<open>StreamFailed\<close> "Erro ao obter stream do video"
  (line 363), \<open>LocalFileError\<close> "Erro ao acessar arquivo local" (line 407),
  \<open>UnsupportedStream\<close> "Tipo de stream nao suportado" (line 413) and
  \<open>InternalError\<close> "Erro interno do servidor" (line 421).

  A file response carries the status, the number given last for \<open>Content-Length\<close>,
  the numbers \<open>(start, end, size)\<close> of \<^verbatim>\<open>Content-Range: bytes start-end/size\<close> when
  that header is set, and the \<open>(start, end)\<close> given to the read stream (\<open>None\<close>: the
  whole file).
\<close>

datatype json_error =
  AccessDenied | StreamFailed | LocalFileError | UnsupportedStream | InternalError

datatype response =
  JsonResponse nat json_error
| FileResponse nat jsnum "(jsnum \<times> jsnum \<times> jsnum) option" "(jsnum \<times> jsnum) option"

fun status_of :: "response \<Rightarrow> nat" where
  "status_of (JsonResponse st _) = st"
| "status_of (FileResponse st _ _ _) = st"

subsection \<open>Serving the local file (videos-ssh.js, lines 373 to 411)\<close>

text \<open>
  \<open>rangeHdr\<close> is \<^verbatim>\<open>req.headers.range\<close>: \<open>None\<close> when the header is absent. The test
  \<^verbatim>\<open>if (range)\<close> is false for the empty string too. In the range branch the status
  206 and the headers are set first, then the read stream is created; when that throws,
  the \<^verbatim>\<open>catch\<close> of line 405 replaces the answer by status 500.
\<close>

definition range_start :: "string list \<Rightarrow> jsnum" where
  "range_start parts = (case parts of [] \<Rightarrow> NaN | p0 # _ \<Rightarrow> parseInt10 p0)"

definition range_end :: "string list \<Rightarrow> nat \<Rightarrow> jsnum" where
  "range_end parts fileSize =
     (case parts of
        _ # p1 # _ \<Rightarrow>
          (if p1 = [] then js_sub (Num (int fileSize)) (Num 1) else parseInt10 p1)
      | _ \<Rightarrow> js_sub (Num (int fileSize)) (Num 1))"

definition serve_local :: "nat \<Rightarrow> string option \<Rightarrow> response" where
  "serve_local fileSize rangeHdr =
     (case rangeHdr of
        None \<Rightarrow> FileResponse 200 (Num (int fileSize)) None None
      | Some r \<Rightarrow>
          if r = [] then FileResponse 200 (Num (int fileSize)) None None
          else
            let parts = split_on CHR ''-'' (replace_first ''bytes='' [] r);
                start = range_start parts;
                end = range_end parts fileSize;
                chunksize = js_add (js_sub end start) (Num 1)
            in if createReadStream_ok start end
               then FileResponse 206 chunksize (Some (start, end, Num (int fileSize)))
                      (Some (start, end))
               else JsonResponse 500 LocalFileError)"

subsection \<open>The route (videos-ssh.js, lines 332 to 427)\<close>

text \<open>
  What the route awaits is a parameter: \<open>dbServerRows\<close> is the result of the query for
  the caller's server (\<open>None\<close>: the query rejects; otherwise the \<open>codigo_servidor\<close> of
  each row), \<open>getVideoStream\<close> is the call of that name on the manager, which returns
  an object \<^verbatim>\<open>{success, type, path}\<close> (\<open>Inr\<close>) or throws (\<open>Inl\<close>), and \<open>fsStat\<close>
  gives the size of a local file as \<^verbatim>\<open>stats.size\<close> has it, or \<open>None\<close> when
  \<^verbatim>\<open>fs.stat\<close> rejects. When the base name of the path is refused as a header value
  the \<^verbatim>\<open>catch\<close> of line 405 answers and no read stream is created. (The manager
  returns \<^verbatim>\<open>{success: true, type: 'local', path}\<close> with the path of the cached file
  when the download succeeds, and throws otherwise: lines 213 to 246.)

  The route returns the operations it has started, in order, with its response.
\<close>

datatype io_op =
  DbExecute
| GetVideoStream nat string string
| FsStat string
| CreateReadStream string

record stream_result =
  sr_success :: bool
  sr_type :: string
  sr_path :: string

record stream_env =
  dbServerRows :: "nat list option"
  getVideoStream :: "nat \<Rightarrow> string \<Rightarrow> string \<Rightarrow> string + stream_result"
  fsStat :: "string \<Rightarrow> nat option"

text \<open>
  \<^verbatim>\<open>path.basename\<close>: the last component of a path, trailing slashes ignored.
\<close>

definition basename :: "string \<Rightarrow> string" where
  "basename p =
     rev (takeWhile (\<lambda>c. c \<noteq> CHR ''/'') (dropWhile (\<lambda>c. c = CHR ''/'') (rev p)))"

text \<open>
  \<^verbatim>\<open>res.setHeader\<close> throws when the value has a character other than the tab and
  the codes 32 to 126 and 128 to 255. The route puts the base name of the decoded path
  into the \<open>Content-Disposition\<close> header (line 382), inside the \<^verbatim>\<open>try\<close> of line 373.
  On the bytes of a path: a byte below 128 is the character of that code; the bytes 194
  and 195 followed by a byte from 128 to 191 are a character from 128 to 255; every other
  sequence decodes to a character above 255 or to the replacement character.
\<close>

definition ascii_header_char :: "char \<Rightarrow> bool" where
  "ascii_header_char c =
     ((of_char c :: nat) = 9 \<or> (32 \<le> (of_char c :: nat) \<and> (of_char c :: nat) \<le> 126))"

definition latin1_lead :: "char \<Rightarrow> bool" where
  "latin1_lead c = ((of_char c :: nat) = 194 \<or> (of_char c :: nat) = 195)"

definition continuation :: "char \<Rightarrow> bool" where
  "continuation c = (128 \<le> (of_char c :: nat) \<and> (of_char c :: nat) \<le> 191)"

fun header_value_ok :: "string \<Rightarrow> bool" where
  "header_value_ok [] = True"
| "header_value_ok [c] = ascii_header_char c"
| "header_value_ok (c # d # cs) =
     (if ascii_header_char c then header_value_ok (d # cs)
      else latin1_lead c \<and> continuation d \<and> header_value_ok cs)"

definition owner_pattern :: "string \<Rightarrow> string" where
  "owner_pattern userLogin = ''/'' @ userLogin @ ''/''"

definition stream_route ::
  "stream_env \<Rightarrow> string \<Rightarrow> string \<Rightarrow> string option \<Rightarrow> io_op list \<times> response" where
  "stream_route env videoId userLogin rangeHdr =
     (let remotePath = decode_id videoId in
      if \<not> str_includes remotePath (owner_pattern userLogin)
      then ([], JsonResponse 403 AccessDenied)
      else
        case dbServerRows env of
          None \<Rightarrow> ([DbExecute], JsonResponse 500 InternalError)
        | Some rows \<Rightarrow>
            let serverId = (case rows of [] \<Rightarrow> 1 | r # _ \<Rightarrow> r);
                ops = [DbExecute, GetVideoStream serverId remotePath videoId]
            in (case getVideoStream env serverId remotePath videoId of
                  Inl err \<Rightarrow> (ops, JsonResponse 500 InternalError)
                | Inr streamResult \<Rightarrow>
                    if \<not> sr_success streamResult then (ops, JsonResponse 500 StreamFailed)
                    else if sr_type streamResult = ''local'' then
                      (case fsStat env (sr_path streamResult) of
                         None \<Rightarrow>
                           (ops @ [FsStat (sr_path streamResult)],
                            JsonResponse 500 LocalFileError)
                       | Some fileSize \<Rightarrow>
                           if \<not> header_value_ok (basename remotePath)
                           then (ops @ [FsStat (sr_path streamResult)],
                                 JsonResponse 500 LocalFileError)
                           else (ops @ [FsStat (sr_path streamResult),
                                        CreateReadStream (sr_path streamResult)],
                                 serve_local fileSize rangeHdr))
                    else (ops, JsonResponse 500 UnsupportedStream)))"

text \<open>
  The layout of the content tree, from \<^verbatim>\<open>listVideosFromServer\<close> (line 54): the files
  of a login are below \<^verbatim>\<open>/usr/local/WowzaStreamingEngine/content/<login>\<close>. The owner
  segment of a path is the component that follows the content root.
\<close>

definition content_root :: string where
  "content_root = ''/usr/local/WowzaStreamingEngine/content/''"

definition owner_segment :: "string \<Rightarrow> string option" where
  "owner_segment p =
     (if starts_with content_root p
      then Some (takeWhile (\<lambda>c. c \<noteq> CHR ''/'') (drop (length content_root) p))
      else None)"

text \<open>
  The shape of a well-formed range, following the spec's words (\<open>bytes=start-end\<close>,
  the end optional): the unit \<open>bytes=\<close>, a non-empty run of digits, a dash, and a
  possibly empty run of digits.
\<close>

definition well_formed_range :: "string \<Rightarrow> bool" where
  "well_formed_range r =
     (starts_with ''bytes='' r \<and>
      (let rest = drop 6 r;
           ds = takeWhile is_digit rest;
           after = drop (length ds) rest
       in ds \<noteq> [] \<and> starts_with ''-'' after \<and> list_all is_digit (tl after)))"

text \<open>
  An environment for the examples: the query finds server 3, the manager has the video
  in its cache, and the cached file has 1000 bytes.
\<close>

definition example_env :: stream_env where
  "example_env =
     \<lparr> dbServerRows = Some [3],
       getVideoStream = (\<lambda>serverId remotePath videoId.
          Inr \<lparr> sr_success = True, sr_type = ''local'', sr_path = ''/tmp/video-cache/clip'' \<rparr>),
       fsStat = (\<lambda>cachePath. Some 1000) \<rparr>"

text \<open>A run of 309 nines, an end offset beyond every double, for the examples.\<close>

definition many_nines :: string where
  "many_nines = replicate 309 CHR ''9''"

section \<open>The origin proxy (middleware on \<open>/content\<close>)\<close>

















section \<open>The download coordinator and the disk cache (VideoSSHManager.js)\<close>

subsection \<open>Paths\<close>

text \<open>
  \<^verbatim>\<open>path.join(dir, name)\<close> for an absolute \<open>dir\<close>: the components of both, without
  empty and \<open>.\<close> components and with \<open>..\<close> resolved, each after a slash. (A trailing
  slash of \<open>name\<close> would be kept by the runtime; the names joined here end with the
  base name of a path or with \<open>_\<close>.)
\<close>

fun normalize_segments :: "string list \<Rightarrow> string list \<Rightarrow> string list" where
  "normalize_segments [] stack = rev stack"
| "normalize_segments (seg # segs) stack =
     (if seg = [] \<or> seg = ''.'' then normalize_segments segs stack
      else if seg = ''..'' then normalize_segments segs (tl stack)
      else normalize_segments segs (seg # stack))"

definition path_join :: "string \<Rightarrow> string \<Rightarrow> string" where
  "path_join dir name =
     (let segs = normalize_segments (split_on CHR ''/'' (dir @ ''/'' @ name)) []
      in if segs = [] then ''/'' else concat (map (\<lambda>seg. ''/'' @ seg) segs))"

definition tempDir :: string where
  "tempDir = ''/tmp/video-cache''"

text \<open>The cache file of a video (lines 123 and 124).\<close>

definition local_path :: "string \<Rightarrow> string \<Rightarrow> string" where
  "local_path remotePath videoId = path_join tempDir (videoId @ ''_'' @ basename remotePath)"

subsection \<open>The cache directory\<close>

text \<open>
  The directory \<open>tempDir\<close> is a list of names with their files, in the order of
  \<^verbatim>\<open>fs.readdir\<close>, each name once. Of a file the model keeps the modification time in
  milliseconds, as \<^verbatim>\<open>stats.mtime.getTime()\<close> gives it, and the inode, which tells
  a file from a later file of the same name.
\<close>

record cache_file =
  mtime :: int
  ino :: nat

type_synonym dir = "(string \<times> cache_file) list"

definition unlink :: "string \<Rightarrow> dir \<Rightarrow> dir" where
  "unlink name d = filter (\<lambda>entry. fst entry \<noteq> name) d"

definition put_file :: "string \<Rightarrow> cache_file \<Rightarrow> dir \<Rightarrow> dir" where
  "put_file name f d =
     (if map_of d name = None then d @ [(name, f)]
      else map (\<lambda>entry. if fst entry = name then (name, f) else entry) d)"

text \<open>
  The two thresholds, both written \<^verbatim>\<open>60 * 60 * 1000\<close> in the source: \<open>maxAge\<close> in
  \<^verbatim>\<open>cleanupOldFiles\<close> (line 36) and the literal of the cache test in
  \<^verbatim>\<open>downloadVideoToTemp\<close> (line 132).
\<close>

definition maxAge :: int where
  "maxAge = 60 * 60 * 1000"

definition freshThreshold :: int where
  "freshThreshold = 60 * 60 * 1000"

definition is_stale :: "int \<Rightarrow> cache_file \<Rightarrow> bool" where
  "is_stale now f = (now - mtime f > maxAge)"

definition is_fresh :: "int \<Rightarrow> cache_file \<Rightarrow> bool" where
  "is_fresh now f = (now - mtime f < freshThreshold)"

text \<open>
  \<^verbatim>\<open>cleanupOldFiles\<close> (lines 32 to 50): the loop over the names that \<open>readdir\<close> gave.
  When \<open>stat\<close> rejects, the handler around the loop ends the sweep.
\<close>

fun sweep_files :: "int \<Rightarrow> string list \<Rightarrow> dir \<Rightarrow> dir" where
  "sweep_files now [] d = d"
| "sweep_files now (name # names) d =
     (case map_of d name of
        None \<Rightarrow> d
      | Some stats \<Rightarrow> sweep_files now names (if is_stale now stats then unlink name d else d))"

definition cleanupOldFiles :: "int \<Rightarrow> dir \<Rightarrow> dir" where
  "cleanupOldFiles now d = sweep_files now (map fst d) d"

text \<open>\<^verbatim>\<open>clearCache\<close> (lines 371 to 386): every name is unlinked; the count is returned.\<close>

fun clear_files :: "string list \<Rightarrow> dir \<Rightarrow> dir" where
  "clear_files [] d = d"
| "clear_files (name # names) d = clear_files names (unlink name d)"

definition clearCache :: "dir \<Rightarrow> dir \<times> nat" where
  "clearCache d = (clear_files (map fst d) d, length (map fst d))"

subsection \<open>Promises, transfers and calls\<close>

text \<open>
  An error object is identified by a number. The value of a successful download is the
  object \<^verbatim>\<open>{success: true, localPath, downloadedBytes, cached}\<close>; a cache hit has no
  \<open>downloadedBytes\<close>.
\<close>

datatype io_error = IoError nat

record dl_result =
  localPath :: string
  downloadedBytes :: "nat option"
  cached :: bool

datatype promise_state = Pending | Fulfilled dl_result | Rejected io_error

text \<open>
  The executor of \<open>downloadPromise\<close> (lines 147 to 194), by the operation it waits for:
  the connection, the SFTP channel, then the two streams. \<open>t_ino\<close> is the inode that
  the write stream has opened (\<open>None\<close> before the file is open).
\<close>

datatype phase = Connecting | OpeningSftp | Streaming | Finished | Failed

record transfer =
  t_promise :: nat
  t_serverId :: nat
  t_remotePath :: string
  t_localPath :: string
  t_phase :: phase
  t_bytes :: nat
  t_ino :: "nat option"

text \<open>
  A call of \<^verbatim>\<open>downloadVideoToTemp\<close> is suspended at \<^verbatim>\<open>await fs.stat\<close> (line 128) or at
  \<^verbatim>\<open>await downloadPromise\<close> (line 199), or it has returned. It returns the promise
  found in \<open>downloadQueue\<close> (line 120), whose outcome its caller then observes, or a
  value, or it throws.
\<close>

datatype call_result = SharedPromise nat | Value dl_result | Thrown io_error

datatype call_state =
  AwaitStat nat string string string
| AwaitDownload string nat
| Returned call_result

record coordinator =
  now :: int
  tempFiles :: dir
  nextIno :: nat
  downloadQueue :: "string \<rightharpoonup> nat"
  promises :: "promise_state list"
  transfers :: "transfer list"
  calls :: "call_state list"

definition init :: coordinator where
  "init = \<lparr> now = 0, tempFiles = [], nextIno = 0, downloadQueue = Map.empty,
            promises = [], transfers = [], calls = [] \<rparr>"

text \<open>What the caller of a call observes: the outcome of the promise that the call gave it.\<close>

fun outcome :: "coordinator \<Rightarrow> call_state \<Rightarrow> promise_state" where
  "outcome s (Returned (SharedPromise p)) =
     (if p < length (promises s) then promises s ! p else Pending)"
| "outcome s (Returned (Value r)) = Fulfilled r"
| "outcome s (Returned (Thrown e)) = Rejected e"
| "outcome s _ = Pending"

subsection \<open>Steps of the event loop\<close>

text \<open>
  The process runs one piece of code at a time, and a piece runs until it awaits or
  returns. An event names the piece that runs next:
  \<^item> \<open>Tick d\<close>: \<open>d\<close> milliseconds pass;
  \<^item> \<open>Call serverId remotePath videoId\<close>: \<^verbatim>\<open>downloadVideoToTemp\<close> is called and runs to
    its first \<open>await\<close>;
  \<^item> \<open>StatDone c\<close>: \<^verbatim>\<open>fs.stat\<close> of call \<open>c\<close> settles and the call runs on to
    \<^verbatim>\<open>await downloadPromise\<close>, or returns the cached file;
  \<^item> \<open>Connected t\<close>, \<open>ConnectFails t e\<close>: \<^verbatim>\<open>getConnection\<close> of transfer \<open>t\<close> settles;
  \<^item> \<open>SftpReady t\<close>, \<open>SftpFails t e\<close>: the callback of \<^verbatim>\<open>conn.sftp\<close> runs;
  \<^item> \<open>FileOpened t\<close>: the write stream has opened (created or truncated) its file;
  \<^item> \<open>Data t n\<close>: a chunk of \<open>n\<close> bytes arrives and is written;
  \<^item> \<open>ReadFails t e\<close>, \<open>WriteFails t e\<close>: the error handlers of the streams;
  \<^item> \<open>WriteFinished t\<close>: the handler of \<open>finish\<close>;
  \<^item> \<open>Resume c\<close>: call \<open>c\<close> runs on after \<^verbatim>\<open>await downloadPromise\<close>;
  \<^item> \<open>Sweep\<close>: the timer runs \<^verbatim>\<open>cleanupOldFiles\<close>; \<open>ClearCache\<close>: \<^verbatim>\<open>clearCache\<close> runs.
  An event that cannot happen in a state leaves the state as it is. The sweep and the
  clearing run in one step, and \<^verbatim>\<open>fs.unlink\<close> takes effect where it is called. The
  write stream requests the opening of its file when it is created, before an error of
  a stream can arrive; a file is therefore not opened any more after the transfer failed.
\<close>

datatype event =
  Tick nat
| Call nat string string
| StatDone nat
| Connected nat
| ConnectFails nat io_error
| SftpReady nat
| SftpFails nat io_error
| FileOpened nat
| Data nat nat
| ReadFails nat io_error
| WriteFails nat io_error
| WriteFinished nat
| Resume nat
| Sweep
| ClearCache

definition set_phase :: "nat \<Rightarrow> phase \<Rightarrow> coordinator \<Rightarrow> coordinator" where
  "set_phase t ph s = s\<lparr> transfers := (transfers s)[t := (transfers s ! t)\<lparr> t_phase := ph \<rparr>] \<rparr>"

text \<open>\<^verbatim>\<open>resolve\<close> and \<^verbatim>\<open>reject\<close> settle a promise once; later calls change nothing.\<close>

definition settle :: "nat \<Rightarrow> promise_state \<Rightarrow> coordinator \<Rightarrow> coordinator" where
  "settle p v s =
     (if p < length (promises s) \<and> promises s ! p = Pending
      then s\<lparr> promises := (promises s)[p := v] \<rparr> else s)"

definition in_phase :: "coordinator \<Rightarrow> nat \<Rightarrow> phase \<Rightarrow> bool" where
  "in_phase s t ph = (t < length (transfers s) \<and> t_phase (transfers s ! t) = ph)"

text \<open>Lines 119 to 124: the test of the queue, then the name of the cache file.\<close>

definition call_step :: "nat \<Rightarrow> string \<Rightarrow> string \<Rightarrow> coordinator \<Rightarrow> coordinator" where
  "call_step serverId remotePath videoId s =
     (case downloadQueue s videoId of
        Some p \<Rightarrow> s\<lparr> calls := calls s @ [Returned (SharedPromise p)] \<rparr>
      | None \<Rightarrow>
          s\<lparr> calls := calls s @
                [AwaitStat serverId remotePath videoId (local_path remotePath videoId)] \<rparr>)"

text \<open>
  Lines 127 to 199: the cache test on the result of \<open>stat\<close>; without a hit the promise is
  created, its executor starts to connect, and the promise is put into the queue.
\<close>

definition start_download ::
  "nat \<Rightarrow> nat \<Rightarrow> string \<Rightarrow> string \<Rightarrow> string \<Rightarrow> coordinator \<Rightarrow> coordinator" where
  "start_download c serverId remotePath videoId lp s =
     s\<lparr> promises := promises s @ [Pending],
        transfers := transfers s @
          [\<lparr> t_promise = length (promises s), t_serverId = serverId,
             t_remotePath = remotePath, t_localPath = lp, t_phase = Connecting,
             t_bytes = 0, t_ino = None \<rparr>],
        downloadQueue := (downloadQueue s)(videoId \<mapsto> length (promises s)),
        calls := (calls s)[c := AwaitDownload videoId (length (promises s))] \<rparr>"

definition cache_hit :: "coordinator \<Rightarrow> string \<Rightarrow> bool" where
  "cache_hit s lp = (case map_of (tempFiles s) lp of None \<Rightarrow> False | Some stats \<Rightarrow> is_fresh (now s) stats)"

definition stat_done :: "nat \<Rightarrow> coordinator \<Rightarrow> coordinator" where
  "stat_done c s =
     (if c < length (calls s) then
        (case calls s ! c of
           AwaitStat serverId remotePath videoId lp \<Rightarrow>
             if cache_hit s lp
             then s\<lparr> calls := (calls s)[c := Returned (Value
                        \<lparr> localPath = lp, downloadedBytes = None, cached = True \<rparr>)] \<rparr>
             else start_download c serverId remotePath videoId lp s
         | _ \<Rightarrow> s)
      else s)"

text \<open>Lines 199 to 210: after the promise has settled, the entry is deleted on both paths.\<close>

definition resume :: "nat \<Rightarrow> coordinator \<Rightarrow> coordinator" where
  "resume c s =
     (if c < length (calls s) then
        (case calls s ! c of
           AwaitDownload videoId p \<Rightarrow>
             (case outcome s (Returned (SharedPromise p)) of
                Pending \<Rightarrow> s
              | Fulfilled r \<Rightarrow>
                  s\<lparr> downloadQueue := (downloadQueue s)(videoId := None),
                     calls := (calls s)[c := Returned (Value r)] \<rparr>
              | Rejected e \<Rightarrow>
                  s\<lparr> downloadQueue := (downloadQueue s)(videoId := None),
                     calls := (calls s)[c := Returned (Thrown e)] \<rparr>)
         | _ \<Rightarrow> s)
      else s)"

text \<open>
  The write stream opens its file with the flag \<open>w\<close>: an existing file is truncated and
  keeps its inode, a missing one is created.
\<close>

definition file_opened :: "nat \<Rightarrow> coordinator \<Rightarrow> coordinator" where
  "file_opened t s =
     (let tr = transfers s ! t in
      case map_of (tempFiles s) (t_localPath tr) of
        Some f \<Rightarrow>
          s\<lparr> tempFiles := put_file (t_localPath tr) (f\<lparr> mtime := now s \<rparr>) (tempFiles s),
             transfers := (transfers s)[t := tr\<lparr> t_ino := Some (ino f) \<rparr>] \<rparr>
      | None \<Rightarrow>
          s\<lparr> tempFiles := put_file (t_localPath tr) \<lparr> mtime = now s, ino = nextIno s \<rparr> (tempFiles s),
             nextIno := Suc (nextIno s),
             transfers := (transfers s)[t := tr\<lparr> t_ino := Some (nextIno s) \<rparr>] \<rparr>)"

text \<open>
  A chunk is counted (line 163) and written through the pipe; the write changes the
  modification time of the file that the stream has open, if that file still has its name.
\<close>

definition data_step :: "nat \<Rightarrow> nat \<Rightarrow> coordinator \<Rightarrow> coordinator" where
  "data_step t n s =
     (let tr = transfers s ! t;
          s' = s\<lparr> transfers := (transfers s)[t := tr\<lparr> t_bytes := t_bytes tr + n \<rparr>] \<rparr>
      in case map_of (tempFiles s) (t_localPath tr) of
           Some f \<Rightarrow>
             if t_ino tr = Some (ino f)
             then s'\<lparr> tempFiles := put_file (t_localPath tr) (f\<lparr> mtime := now s \<rparr>) (tempFiles s) \<rparr>
             else s'
         | None \<Rightarrow> s')"

text \<open>Lines 166 to 177: both error handlers unlink the local file and reject the promise.\<close>

definition stream_fails :: "nat \<Rightarrow> io_error \<Rightarrow> coordinator \<Rightarrow> coordinator" where
  "stream_fails t e s =
     (let tr = transfers s ! t in
      set_phase t Failed
        (settle (t_promise tr) (Rejected e)
           (s\<lparr> tempFiles := unlink (t_localPath tr) (tempFiles s) \<rparr>)))"

text \<open>Lines 152 to 155 and 191 to 193: without a connection or a channel, only \<open>reject\<close>.\<close>

definition connect_fails :: "nat \<Rightarrow> io_error \<Rightarrow> coordinator \<Rightarrow> coordinator" where
  "connect_fails t e s =
     set_phase t Failed (settle (t_promise (transfers s ! t)) (Rejected e) s)"

text \<open>Lines 179 to 187: the handler of \<open>finish\<close> resolves the promise.\<close>

definition write_finished :: "nat \<Rightarrow> coordinator \<Rightarrow> coordinator" where
  "write_finished t s =
     (let tr = transfers s ! t in
      set_phase t Finished
        (settle (t_promise tr)
           (Fulfilled \<lparr> localPath = t_localPath tr, downloadedBytes = Some (t_bytes tr),
                        cached = False \<rparr>) s))"

fun step :: "event \<Rightarrow> coordinator \<Rightarrow> coordinator" where
  "step (Tick d) s = s\<lparr> now := now s + int d \<rparr>"
| "step (Call serverId remotePath videoId) s = call_step serverId remotePath videoId s"
| "step (StatDone c) s = stat_done c s"
| "step (Connected t) s = (if in_phase s t Connecting then set_phase t OpeningSftp s else s)"
| "step (ConnectFails t e) s = (if in_phase s t Connecting then connect_fails t e s else s)"
| "step (SftpReady t) s = (if in_phase s t OpeningSftp then set_phase t Streaming s else s)"
| "step (SftpFails t e) s = (if in_phase s t OpeningSftp then connect_fails t e s else s)"
| "step (FileOpened t) s =
     (if in_phase s t Streaming \<and> t_ino (transfers s ! t) = None then file_opened t s else s)"
| "step (Data t n) s = (if in_phase s t Streaming then data_step t n s else s)"
| "step (ReadFails t e) s = (if in_phase s t Streaming then stream_fails t e s else s)"
| "step (WriteFails t e) s = (if in_phase s t Streaming then stream_fails t e s else s)"
| "step (WriteFinished t) s =
     (if in_phase s t Streaming \<and> t_ino (transfers s ! t) \<noteq> None then write_finished t s else s)"
| "step (Resume c) s = resume c s"
| "step Sweep s = s\<lparr> tempFiles := cleanupOldFiles (now s) (tempFiles s) \<rparr>"
| "step ClearCache s = s\<lparr> tempFiles := fst (clearCache (tempFiles s)) \<rparr>"

fun run :: "event list \<Rightarrow> coordinator \<Rightarrow> coordinator" where
  "run [] s = s"
| "run (e # es) s = run es (step e s)"

text \<open>The transfers of a cache file that are under way.\<close>

definition active :: "transfer \<Rightarrow> bool" where
  "active tr = (t_phase tr = Connecting \<or> t_phase tr = OpeningSftp \<or> t_phase tr = Streaming)"

definition active_transfers :: "coordinator \<Rightarrow> string \<Rightarrow> transfer list" where
  "active_transfers s lp = filter (\<lambda>tr. active tr \<and> t_localPath tr = lp) (transfers s)"

text \<open>
  The examples use one video: its path on the origin server and the identifier that the
  listing gives it.
\<close>

definition example_path :: string where
  "example_path = ''/usr/local/WowzaStreamingEngine/content/alice/clips/a.mp4''"

definition example_id :: string where
  "example_id =
     ''L3Vzci9sb2NhbC9Xb3d6YVN0cmVhbWluZ0VuZ2luZS9jb250ZW50L2FsaWNlL2NsaXBzL2EubXA0''"

text \<open>
  What the callers of a failed download see: the entry of the identifier is gone from
  the queue, the promise \<open>p\<close> is rejected with \<open>e\<close>, the initiating call \<open>c\<close> has
  thrown \<open>e\<close>, and every call that returned the promise \<open>p\<close> observes the rejection
  with \<open>e\<close>.
\<close>

definition failure_observed ::
  "coordinator \<Rightarrow> nat \<Rightarrow> string \<Rightarrow> nat \<Rightarrow> io_error \<Rightarrow> bool" where
  "failure_observed s c videoId p e =
     (downloadQueue s videoId = None \<and>
      promises s ! p = Rejected e \<and>
      calls s ! c = Returned (Thrown e) \<and>
      list_all (\<lambda>cs. cs = Returned (SharedPromise p) \<longrightarrow> outcome s cs = Rejected e)
        (calls s))"


chapter \<open>Properties\<close>

section \<open>Video identifiers: the round trip\<close>

lemma base64_alphabet:
  "map base64_char [0..<64] =
     ''ABCDEFGHIJKLMNOPQRSTUVWXYZabcdefghijklmnopqrstuvwxyz0123456789+/''"
  by (simp add: base64_char_def upt_rec char_of_eq_iff)

lemma unbase64_base64_char:
  "n < 64 \<Longrightarrow> unbase64 (base64_char n) = Some n \<and> base64_char n \<noteq> CHR ''=''"
  by (auto simp: base64_char_def unbase64_def Let_def char_of_eq_iff take_bit_eq_mod)

lemma sextets_char: "n < 64 \<Longrightarrow> sextets (base64_char n # cs) = n # sextets cs"
  using unbase64_base64_char [of n] by simp

lemma sextets_pad: "sextets (CHR ''='' # cs) = []"
  by simp

text \<open>
  Decoding the sextets of an encoded byte list gives the bytes back. Computation
  induction on the encoder: one case per tail length, and the step for a full group of
  three bytes.
\<close>

lemma base64_decode_encode:
  "\<forall>b\<in>set bs. b < 256 \<Longrightarrow> base64_decode (base64_encode bs) = bs"
  unfolding base64_decode_def
proof (induction bs rule: base64_encode.induct)
  case 1
  show ?case by simp
next
  case (2 a)
  then have a: "a < 256" by simp
  have s: "sextets (base64_encode [a]) = [a div 4, (a mod 4) * 16]"
    using a by (simp add: sextets_char sextets_pad del: sextets.simps)
  show ?case unfolding s using a by simp
next
  case (3 a b)
  then have a: "a < 256" and b: "b < 256" by simp_all
  have s: "sextets (base64_encode [a, b]) =
      [a div 4, (a mod 4) * 16 + b div 16, (b mod 16) * 4]"
    using a b by (simp add: sextets_char sextets_pad del: sextets.simps)
  show ?case unfolding s using a b by simp
next
  case (4 a b c rest)
  then have a: "a < 256" and b: "b < 256" and c: "c < 256" by simp_all
  have s: "sextets (base64_encode (a # b # c # rest)) =
      a div 4 # ((a mod 4) * 16 + b div 16) # ((b mod 16) * 4 + c div 64) # (c mod 64)
        # sextets (base64_encode rest)"
    using a b c by (simp add: sextets_char sextets_pad del: sextets.simps)
  have ih: "decode_groups (sextets (base64_encode rest)) = rest"
    using 4 by simp
  show ?case unfolding s using a b c ih by simp
qed

text \<open>
  Claim C1. For every remote path \<open>P\<close>, decoding the identifier that the listing
  produces for \<open>P\<close> gives \<open>P\<close> again: \<open>decode (encode P) = P\<close>.
\<close>

theorem decode_id_encode_id: "decode_id (encode_id P) = P"
  by (simp add: decode_id_def encode_id_def base64_decode_encode bytes_of_def
      string_of_bytes_def comp_def)

section \<open>The stream route: ownership and ranges\<close>

subsection \<open>Parsing a range header\<close>

lemma replace_bytes_prefix: "replace_first ''bytes='' [] (''bytes='' @ rest) = rest"
  by simp

lemma split_on_no_sep: "d \<notin> set xs \<Longrightarrow> split_on d xs = [xs]"
  by (induction xs) auto

lemma split_on_first: "d \<notin> set xs \<Longrightarrow> split_on d (xs @ d # rest) = xs # split_on d rest"
  by (induction xs) auto

lemma digit_not_sign: "is_digit c \<Longrightarrow> c \<noteq> CHR ''+'' \<and> c \<noteq> CHR ''-''"
  by (auto simp: is_digit_def)

lemma digits_no_dash: "list_all is_digit ds \<Longrightarrow> CHR ''-'' \<notin> set ds"
  by (auto simp: list_all_iff dest: digit_not_sign)

lemma digit_not_space: "is_digit c \<Longrightarrow> \<not> is_js_space c"
  by (auto simp: is_digit_def is_js_space_def)

lemma takeWhile_digits: "list_all is_digit ds \<Longrightarrow> takeWhile is_digit ds = ds"
  by (induction ds) auto

lemma replace_first_absent: "p \<notin> set r \<Longrightarrow> replace_first (p # ps) rep r = r"
  by (induction r) auto

subsection \<open>Numbers of the runtime\<close>

lemma bit_length_bounds: "0 < n \<Longrightarrow> 2 ^ (bit_length n - 1) \<le> n \<and> n < 2 ^ bit_length n"
proof (induction n rule: bit_length.induct)
  case (1 n)
  show ?case
  proof (cases "n div 2 = 0")
    case True
    then have "n = 1"
      using "1.prems" by presburger
    then show ?thesis
      by (simp add: bit_length.simps)
  next
    case False
    then have pos: "0 < n div 2"
      by simp
    have ih: "2 ^ (bit_length (n div 2) - 1) \<le> n div 2 \<and> n div 2 < 2 ^ bit_length (n div 2)"
      using "1.IH" "1.prems" pos by simp
    have len: "bit_length n = Suc (bit_length (n div 2))"
      using "1.prems" by (subst bit_length.simps) simp
    have "0 < bit_length (n div 2)"
      using pos by (subst bit_length.simps) simp
    then obtain k where k: "bit_length (n div 2) = Suc k"
      by (cases "bit_length (n div 2)") auto
    have "2 ^ Suc k \<le> 2 * (n div 2)"
      using ih k by simp
    then have lo: "2 ^ Suc k \<le> n"
      by presburger
    have "n div 2 + 1 \<le> 2 ^ Suc k"
      using ih k by simp
    then have hi: "n < 2 * 2 ^ Suc k"
      by presburger
    show ?thesis
      using lo hi len k by simp
  qed
qed

text \<open>Rounding an integer above \<open>2^53\<close> to 53 significant bits does not go below \<open>2^53\<close>.\<close>

lemma round_to_53_bits_large:
  assumes "2 ^ 53 < n"
  shows "2 ^ 53 \<le> round_to_53_bits n"
proof -
  define L where "L = bit_length n"
  have npos: "0 < n"
    using assms by (cases n) auto
  have bounds: "2 ^ (L - 1) \<le> n" "n < 2 ^ L"
    using bit_length_bounds [OF npos] by (simp_all add: L_def)
  have lt: "(2::nat) ^ 53 < 2 ^ L"
    by (rule less_trans [OF assms bounds(2)])
  have L: "53 < L"
    by (rule power_less_imp_less_exp [OF _ lt]) simp
  define e where "e = L - 53"
  have e: "1 \<le> e" "L - 1 = 52 + e"
    using L by (simp_all add: e_def)
  have "(2::nat) ^ 52 * 2 ^ e \<le> n"
    using bounds(1) e(2) by (simp add: power_add)
  then have q: "2 ^ 52 \<le> n div 2 ^ e"
    by (simp add: less_eq_div_iff_mult_less_eq)
  have "(2::nat) ^ 1 \<le> 2 ^ e"
    using e(1) by (intro power_increasing) simp_all
  then have two: "(2::nat) \<le> 2 ^ e"
    by simp
  have "(2::nat) ^ 53 = 2 ^ 52 * 2"
    by simp
  also have "\<dots> \<le> (n div 2 ^ e) * 2 ^ e"
    using q two by (intro mult_le_mono)
  finally have base: "2 ^ 53 \<le> (n div 2 ^ e) * 2 ^ e" .
  have "(n div 2 ^ e) * 2 ^ e \<le> round_to_53_bits n"
    by (simp add: round_to_53_bits_def Let_def L_def [symmetric] e_def [symmetric])
  then show ?thesis
    using base by linarith
qed

text \<open>Ties go to the even significand: between \<open>2^53\<close> and \<open>2^54\<close> the doubles are the even integers.\<close>

lemma rounding_examples:
  "to_double (2 ^ 53 + 1) = Num (2 ^ 53)"
  "to_double (2 ^ 53 + 2) = Num (2 ^ 53 + 2)"
  "to_double (2 ^ 53 + 3) = Num (2 ^ 53 + 4)"
  "to_double (2 ^ 54 + 2) = Num (2 ^ 54)"
  "to_double (2 ^ 54 + 3) = Num (2 ^ 54 + 4)"
  "to_double (2 ^ 54 + 6) = Num (2 ^ 54 + 8)"
  by (simp_all add: to_double_def round_to_53_bits_def bit_length.simps infinity_threshold_def)

lemma threshold_large: "2 ^ 53 < infinity_threshold"
  by (simp add: infinity_threshold_def)

lemma to_double_infinite: "to_double n = PosInfinity \<longleftrightarrow> infinity_threshold \<le> n"
  using threshold_large by (auto simp: to_double_def)

text \<open>The number of an integer is a valid position exactly when the integer is safe.\<close>

lemma valid_position_to_double: "valid_position (to_double n) \<longleftrightarrow> int n \<le> max_safe_integer"
proof (cases "n \<le> 2 ^ 53")
  case True
  then show ?thesis
    by (simp add: to_double_def max_safe_integer_def)
next
  case False
  then have large: "2 ^ 53 < n"
    by simp
  have unsafe: "\<not> int n \<le> max_safe_integer"
    using large by (simp add: max_safe_integer_def)
  have "\<not> valid_position (to_double n)"
  proof (cases "infinity_threshold \<le> n")
    case True
    then show ?thesis
      using large by (simp add: to_double_def)
  next
    case False
    have "2 ^ 53 \<le> round_to_53_bits n"
      using large by (rule round_to_53_bits_large)
    then have "\<not> int (round_to_53_bits n) \<le> max_safe_integer"
      by (simp add: max_safe_integer_def)
    then show ?thesis
      using large False by (simp add: to_double_def)
  qed
  then show ?thesis
    using unsafe by simp
qed

lemma to_double_safe: "int n \<le> max_safe_integer \<Longrightarrow> to_double n = Num (int n)"
  by (simp add: to_double_def max_safe_integer_def)

lemma number_of_int_exact: "0 \<le> i \<Longrightarrow> i \<le> 2 ^ 53 \<Longrightarrow> number_of_int i = Num i"
proof -
  assume "0 \<le> i" and "i \<le> 2 ^ 53"
  then have "nat i \<le> 2 ^ 53"
    by (simp add: nat_le_iff)
  then show ?thesis
    using \<open>0 \<le> i\<close> by (simp add: number_of_int_def to_double_def)
qed

lemma chunksize_safe:
  assumes "0 \<le> s" and "s \<le> e" and "e \<le> max_safe_integer"
  shows "js_add (js_sub (Num e) (Num s)) (Num 1) = Num (e - s + 1)"
proof -
  have bound: "e - s + 1 \<le> 2 ^ 53"
    using assms by (simp add: max_safe_integer_def)
  have "js_sub (Num e) (Num s) = Num (e - s)"
    using assms bound by (simp add: js_sub_def number_of_int_exact)
  then show ?thesis
    using assms bound by (simp add: number_of_int_exact)
qed

lemma refused_start: "\<not> valid_position a \<Longrightarrow> \<not> createReadStream_ok a b"
  by (cases a; cases b) auto

lemma refused_end:
  "\<not> valid_position b \<Longrightarrow> b \<noteq> PosInfinity \<Longrightarrow> \<not> createReadStream_ok a b"
  by (cases a; cases b) auto

lemma chunksize_infinite: "js_add (js_sub PosInfinity (Num s)) (Num 1) = PosInfinity"
  by (simp add: js_sub_def)

text \<open>On a non-empty run of digits \<open>parseInt\<close> reads the whole run.\<close>

lemma parseInt10_digits:
  assumes "list_all is_digit ds" and "ds \<noteq> []"
  shows "parseInt10 ds = to_double (digits_val ds)"
proof -
  obtain c cs where ds: "ds = c # cs"
    using assms(2) by (cases ds) auto
  have c: "is_digit c"
    using assms(1) ds by simp
  have no_space: "dropWhile is_js_space ds = ds"
    using c ds digit_not_space by simp
  have no_sign: "\<not> starts_with ''+'' ds" "\<not> starts_with ''-'' ds"
    using c ds digit_not_sign by auto
  show ?thesis
    unfolding parseInt10_def no_space
    using no_sign assms by (simp add: takeWhile_digits Let_def)
qed

lemma digits_val_snoc: "digits_val (ds @ [c]) = 10 * digits_val ds + digit_val c"
  by (simp add: digits_val_def)

lemma digits_val_nines: "digits_val (replicate k CHR ''9'') + 1 = 10 ^ k"
proof (induction k)
  case 0
  show ?case by (simp add: digits_val_def)
next
  case (Suc k)
  have "replicate (Suc k) CHR ''9'' = replicate k CHR ''9'' @ [CHR ''9'']"
    by (simp add: replicate_append_same)
  then have "digits_val (replicate (Suc k) CHR ''9'') =
      10 * digits_val (replicate k CHR ''9'') + digit_val CHR ''9''"
    by (simp only: digits_val_snoc)
  moreover have "digit_val CHR ''9'' = 9"
    by (simp add: digit_val_def)
  ultimately show ?case
    using Suc by simp
qed

lemma many_nines_facts:
  "list_all is_digit many_nines" "many_nines \<noteq> []"
  "CHR ''b'' \<notin> set many_nines" "CHR ''-'' \<notin> set many_nines"
  by (simp_all add: many_nines_def list_all_iff is_digit_def)

lemma many_nines_infinite: "infinity_threshold \<le> digits_val many_nines"
proof -
  have "infinity_threshold + 1 \<le> 10 ^ 309"
    by (simp add: infinity_threshold_def)
  then show ?thesis
    using digits_val_nines [of 309] by (simp add: many_nines_def)
qed

lemma parseInt10_many_nines: "parseInt10 many_nines = PosInfinity"
  by (simp add: parseInt10_digits many_nines_facts to_double_infinite many_nines_infinite)

subsection \<open>The local file branch\<close>

text \<open>
  The answer to a header whose parts are two non-empty runs of digits, by the integers
  \<open>s\<close> and \<open>e\<close> they write.
\<close>

lemma serve_local_offsets:
  assumes "r \<noteq> []"
    and "split_on CHR ''-'' (replace_first ''bytes='' [] r) = [ds, es]"
    and "list_all is_digit ds" and "ds \<noteq> []"
    and "list_all is_digit es" and "es \<noteq> []"
  shows "serve_local fileSize (Some r) =
     (if digits_val ds \<le> digits_val es \<and> int (digits_val es) \<le> max_safe_integer
      then FileResponse 206 (Num (int (digits_val es) - int (digits_val ds) + 1))
             (Some (Num (int (digits_val ds)), Num (int (digits_val es)), Num (int fileSize)))
             (Some (Num (int (digits_val ds)), Num (int (digits_val es))))
      else if int (digits_val ds) \<le> max_safe_integer \<and> infinity_threshold \<le> digits_val es
      then FileResponse 206 PosInfinity
             (Some (Num (int (digits_val ds)), PosInfinity, Num (int fileSize)))
             (Some (Num (int (digits_val ds)), PosInfinity))
      else JsonResponse 500 LocalFileError)"
proof -
  define s where "s = digits_val ds"
  define e where "e = digits_val es"
  have start: "range_start [ds, es] = to_double s"
    using assms(3,4) by (simp add: range_start_def parseInt10_digits s_def)
  have "end": "range_end [ds, es] fileSize = to_double e"
    using assms(5,6) by (simp add: range_end_def parseInt10_digits e_def)
  have body: "serve_local fileSize (Some r) =
      (if createReadStream_ok (to_double s) (to_double e)
       then FileResponse 206 (js_add (js_sub (to_double e) (to_double s)) (Num 1))
              (Some (to_double s, to_double e, Num (int fileSize)))
              (Some (to_double s, to_double e))
       else JsonResponse 500 LocalFileError)"
    using assms(1) by (simp add: serve_local_def assms(2) start "end" Let_def)
  have not_both: "\<not> (int e \<le> max_safe_integer \<and> infinity_threshold \<le> e)"
    using threshold_large by (simp add: max_safe_integer_def)
  show ?thesis
  proof (cases "int s \<le> max_safe_integer")
    case False
    then have "\<not> valid_position (to_double s)"
      by (simp add: valid_position_to_double)
    then have "\<not> createReadStream_ok (to_double s) (to_double e)"
      by (rule refused_start)
    moreover have "\<not> (s \<le> e \<and> int e \<le> max_safe_integer)"
      using False by simp
    ultimately show ?thesis
      unfolding body using False by (simp add: s_def [symmetric] e_def [symmetric])
  next
    case s_safe: True
    then have s_num: "to_double s = Num (int s)"
      by (rule to_double_safe)
    show ?thesis
    proof (cases "int e \<le> max_safe_integer")
      case True
      then have e_num: "to_double e = Num (int e)"
        by (rule to_double_safe)
      show ?thesis
        unfolding body s_num e_num
        using True s_safe not_both
        by (simp add: s_def [symmetric] e_def [symmetric] chunksize_safe)
    next
      case e_unsafe: False
      show ?thesis
      proof (cases "infinity_threshold \<le> e")
        case True
        then have e_inf: "to_double e = PosInfinity"
          by (simp add: to_double_infinite)
        show ?thesis
          unfolding body s_num e_inf
          using True s_safe e_unsafe
          by (simp add: s_def [symmetric] e_def [symmetric] chunksize_infinite)
      next
        case False
        have "\<not> valid_position (to_double e)"
          using e_unsafe by (simp add: valid_position_to_double)
        moreover have "to_double e \<noteq> PosInfinity"
          using False by (simp add: to_double_infinite)
        ultimately have "\<not> createReadStream_ok (Num (int s)) (to_double e)"
          by (rule refused_end)
        then show ?thesis
          unfolding body s_num
          using False e_unsafe by (simp add: s_def [symmetric] e_def [symmetric])
      qed
    qed
  qed
qed

lemma serve_local_numeric:
  assumes "list_all is_digit ds" and "ds \<noteq> []"
    and "list_all is_digit es" and "es \<noteq> []"
  shows "serve_local fileSize (Some (''bytes='' @ ds @ ''-'' @ es)) =
     (if digits_val ds \<le> digits_val es \<and> int (digits_val es) \<le> max_safe_integer
      then FileResponse 206 (Num (int (digits_val es) - int (digits_val ds) + 1))
             (Some (Num (int (digits_val ds)), Num (int (digits_val es)), Num (int fileSize)))
             (Some (Num (int (digits_val ds)), Num (int (digits_val es))))
      else if int (digits_val ds) \<le> max_safe_integer \<and> infinity_threshold \<le> digits_val es
      then FileResponse 206 PosInfinity
             (Some (Num (int (digits_val ds)), PosInfinity, Num (int fileSize)))
             (Some (Num (int (digits_val ds)), PosInfinity))
      else JsonResponse 500 LocalFileError)"
proof -
  have parts:
    "split_on CHR ''-'' (replace_first ''bytes='' [] (''bytes='' @ ds @ ''-'' @ es)) = [ds, es]"
    using assms
    by (simp only: replace_bytes_prefix)
       (simp add: split_on_first split_on_no_sep digits_no_dash)
  have ne: "''bytes='' @ ds @ ''-'' @ es \<noteq> []"
    by simp
  show ?thesis
    using ne parts assms by (rule serve_local_offsets)
qed

lemma serve_local_nonempty_status:
  "r \<noteq> [] \<Longrightarrow>
   status_of (serve_local fileSize (Some r)) =
     (if createReadStream_ok
           (range_start (split_on CHR ''-'' (replace_first ''bytes='' [] r)))
           (range_end (split_on CHR ''-'' (replace_first ''bytes='' [] r)) fileSize)
      then 206 else 500)"
  by (simp add: serve_local_def Let_def)

subsection \<open>The route around it\<close>

lemma decode_encode_path: "decode_id (encode_id P) = P"
  by (simp add: decode_id_def encode_id_def base64_decode_encode bytes_of_def
      string_of_bytes_def comp_def)

text \<open>The test of line 342: a path without \<open>/login/\<close> is refused before anything is awaited.\<close>

lemma stream_route_denied:
  "\<not> str_includes (decode_id videoId) (owner_pattern userLogin) \<Longrightarrow>
   stream_route env videoId userLogin rangeHdr = ([], JsonResponse 403 AccessDenied)"
  by (simp add: stream_route_def)

lemma stream_route_local:
  assumes "str_includes (decode_id videoId) (owner_pattern userLogin)"
    and "dbServerRows env = Some rows"
    and "getVideoStream env (case rows of [] \<Rightarrow> 1 | r # _ \<Rightarrow> r) (decode_id videoId) videoId
           = Inr \<lparr> sr_success = True, sr_type = ''local'', sr_path = cachePath \<rparr>"
    and "fsStat env cachePath = Some fileSize"
    and "header_value_ok (basename (decode_id videoId))"
  shows "snd (stream_route env videoId userLogin rangeHdr) = serve_local fileSize rangeHdr"
  using assms by (simp add: stream_route_def Let_def)

text \<open>
  A file name that is refused as a header value: the answer is status 500 whatever the
  Range header, and no read stream is created.
\<close>

lemma stream_route_refused_file_name:
  assumes "str_includes (decode_id videoId) (owner_pattern userLogin)"
    and "dbServerRows env = Some rows"
    and "getVideoStream env (case rows of [] \<Rightarrow> 1 | r # _ \<Rightarrow> r) (decode_id videoId) videoId
           = Inr \<lparr> sr_success = True, sr_type = ''local'', sr_path = cachePath \<rparr>"
    and "fsStat env cachePath = Some fileSize"
    and "\<not> header_value_ok (basename (decode_id videoId))"
  shows "stream_route env videoId userLogin rangeHdr =
     ([DbExecute,
       GetVideoStream (case rows of [] \<Rightarrow> 1 | r # _ \<Rightarrow> r) (decode_id videoId) videoId,
       FsStat cachePath],
      JsonResponse 500 LocalFileError)"
  using assms by (simp add: stream_route_def Let_def)

lemma example_route:
  "str_includes P (owner_pattern login) \<Longrightarrow> header_value_ok (basename P) \<Longrightarrow>
   snd (stream_route example_env (encode_id P) login rangeHdr) = serve_local 1000 rangeHdr"
  by (simp add: stream_route_def Let_def decode_encode_path example_env_def)

lemma alice_owns_example:
  "str_includes ''/usr/local/WowzaStreamingEngine/content/alice/clips/a.mp4''
     (owner_pattern ''alice'')"
  by (simp add: owner_pattern_def)

text \<open>
  Header values: a plain name and a name with \<open>e\<close> acute are accepted, a name with a
  line feed and a name with the euro sign are refused.
\<close>

lemma header_value_examples:
  "header_value_ok ''clip.mp4''"
  "header_value_ok [CHR 0xC3, CHR 0xA9]"
  "\<not> header_value_ok (''a'' @ [CHR 0x0A] @ ''.mp4'')"
  "\<not> header_value_ok [CHR 0xE2, CHR 0x82, CHR 0xAC]"
  by (simp_all add: ascii_header_char_def latin1_lead_def continuation_def)

lemma example_file_name:
  "header_value_ok (basename ''/usr/local/WowzaStreamingEngine/content/alice/clips/a.mp4'')"
  by (simp add: basename_def ascii_header_char_def)

lemmas eval_range =
  serve_local_def range_start_def range_end_def parseInt10_def is_js_space_def
  is_digit_def Let_def digits_val_def digit_val_def max_safe_integer_def
  to_double_def number_of_int_def js_sub_def

lemma example_owner:
  "str_includes
     (decode_id (encode_id ''/usr/local/WowzaStreamingEngine/content/alice/clips/a.mp4''))
     (owner_pattern ''alice'')"
  by (simp only: decode_encode_path alice_owns_example)

lemma example_awaited:
  "dbServerRows example_env = Some [3]"
  "getVideoStream example_env (case [3] of [] \<Rightarrow> 1 | r # _ \<Rightarrow> r)
     (decode_id (encode_id ''/usr/local/WowzaStreamingEngine/content/alice/clips/a.mp4''))
     (encode_id ''/usr/local/WowzaStreamingEngine/content/alice/clips/a.mp4'')
     = Inr \<lparr> sr_success = True, sr_type = ''local'', sr_path = ''/tmp/video-cache/clip'' \<rparr>"
  "fsStat example_env ''/tmp/video-cache/clip'' = Some 1000"
  by (simp_all add: example_env_def)

lemma example_header:
  "header_value_ok
     (basename (decode_id (encode_id ''/usr/local/WowzaStreamingEngine/content/alice/clips/a.mp4'')))"
  by (simp only: decode_encode_path example_file_name)

lemmas example_hyps = example_owner example_awaited example_header

text \<open>The parts of a header without unit whose end is the run of 309 nines.\<close>

lemma parts_zero_to_many_nines:
  "split_on CHR ''-'' (replace_first ''bytes='' [] (''0-'' @ many_nines)) = [''0'', many_nines]"
proof -
  have "CHR ''b'' \<notin> set (''0-'' @ many_nines)"
    using many_nines_facts(3) by simp
  then have "replace_first ''bytes='' [] (''0-'' @ many_nines) = ''0-'' @ many_nines"
    by (rule replace_first_absent)
  then show ?thesis
    using split_on_first [of "CHR ''-''" "''0''" many_nines] many_nines_facts(4)
    by (simp add: split_on_no_sep)
qed

subsection \<open>Claim C5: malformed range headers\<close>

text \<open>
  Claim C5 says that a request with a malformed Range header is answered as if the
  header were absent, with status 200 and the full content. The route does not do so:
  for the header \<open>abc\<close>, which has not the shape \<open>bytes=start-end\<close>, no start can be
  parsed, the read stream refuses the offsets, and the answer is status 500, whereas
  the same request without the header gets 200 and the 1000 bytes of the file.
\<close>

theorem malformed_range_counterexample:
  "\<not> well_formed_range ''abc'' \<and>
   snd (stream_route example_env
          (encode_id ''/usr/local/WowzaStreamingEngine/content/alice/clips/a.mp4'')
          ''alice'' None) = FileResponse 200 (Num 1000) None None \<and>
   snd (stream_route example_env
          (encode_id ''/usr/local/WowzaStreamingEngine/content/alice/clips/a.mp4'')
          ''alice'' (Some ''abc'')) = JsonResponse 500 LocalFileError"
  by (simp add: example_route [OF alice_owns_example example_file_name] eval_range well_formed_range_def)

text \<open>
  Claim C5, amended. For a cached file whose name is accepted as a header value, only
  the empty Range header is treated as absent: it gets status 200 and the full content,
  as a request without the header does. Every non-empty Range header, malformed ones
  included, enters the range branch and is never answered 200: the status is 206 when
  the read stream accepts the numbers that \<open>parseInt\<close> reads from the header (a start
  from 0 to \<open>2^53 - 1\<close>, and an end that is infinity or lies between the start and
  \<open>2^53 - 1\<close>), and 500 otherwise.
\<close>

theorem range_header_absent_only_when_empty:
  assumes "str_includes (decode_id videoId) (owner_pattern userLogin)"
    and "dbServerRows env = Some rows"
    and "getVideoStream env (case rows of [] \<Rightarrow> 1 | r # _ \<Rightarrow> r) (decode_id videoId) videoId
           = Inr \<lparr> sr_success = True, sr_type = ''local'', sr_path = cachePath \<rparr>"
    and "fsStat env cachePath = Some fileSize"
    and "header_value_ok (basename (decode_id videoId))"
  shows "snd (stream_route env videoId userLogin None)
           = FileResponse 200 (Num (int fileSize)) None None
     \<and> snd (stream_route env videoId userLogin (Some []))
           = FileResponse 200 (Num (int fileSize)) None None
     \<and> (r \<noteq> [] \<longrightarrow>
          status_of (snd (stream_route env videoId userLogin (Some r))) =
            (if createReadStream_ok
                  (range_start (split_on CHR ''-'' (replace_first ''bytes='' [] r)))
                  (range_end (split_on CHR ''-'' (replace_first ''bytes='' [] r)) fileSize)
             then 206 else 500))"
  unfolding stream_route_local [OF assms]
  by (simp add: serve_local_nonempty_status) (simp add: serve_local_def)

theorem range_header_absent_only_when_empty_witness:
  "snd (stream_route example_env
          (encode_id ''/usr/local/WowzaStreamingEngine/content/alice/clips/a.mp4'')
          ''alice'' (Some [])) = FileResponse 200 (Num 1000) None None \<and>
   \<not> well_formed_range ''bytes=-500'' \<and>
   status_of (snd (stream_route example_env
          (encode_id ''/usr/local/WowzaStreamingEngine/content/alice/clips/a.mp4'')
          ''alice'' (Some ''bytes=-500''))) = 500 \<and>
   \<not> well_formed_range ''bytes=5'' \<and>
   status_of (snd (stream_route example_env
          (encode_id ''/usr/local/WowzaStreamingEngine/content/alice/clips/a.mp4'')
          ''alice'' (Some ''bytes=5''))) = 206 \<and>
   \<not> well_formed_range (''0-'' @ many_nines) \<and>
   status_of (snd (stream_route example_env
          (encode_id ''/usr/local/WowzaStreamingEngine/content/alice/clips/a.mp4'')
          ''alice'' (Some (''0-'' @ many_nines)))) = 206"
proof -
  let ?vid = "encode_id ''/usr/local/WowzaStreamingEngine/content/alice/clips/a.mp4''"
  note inst = range_header_absent_only_when_empty [OF example_hyps]
  have a: "snd (stream_route example_env ?vid ''alice'' (Some [])) =
      FileResponse 200 (Num 1000) None None"
    using inst [of "[]"] by simp
  have b: "status_of (snd (stream_route example_env ?vid ''alice'' (Some ''bytes=-500''))) = 500"
    using inst [of "''bytes=-500''"] by (simp add: eval_range)
  have c: "status_of (snd (stream_route example_env ?vid ''alice'' (Some ''bytes=5''))) = 206"
    using inst [of "''bytes=5''"] by (simp add: eval_range)
  have range_start_zero: "range_start [''0'', many_nines] = Num 0"
    by (simp add: range_start_def parseInt10_def is_js_space_def is_digit_def digits_val_def
        digit_val_def to_double_def)
  have range_end_nines: "range_end [''0'', many_nines] 1000 = PosInfinity"
    by (simp add: range_end_def parseInt10_many_nines many_nines_facts)
  note range_nines = range_start_zero range_end_nines
  have nonempty: "''0-'' @ many_nines \<noteq> []"
    by simp
  have d: "status_of (snd (stream_route example_env ?vid ''alice'' (Some (''0-'' @ many_nines)))) = 206"
    using inst [of "''0-'' @ many_nines", THEN conjunct2, THEN conjunct2, rule_format,
        OF nonempty, unfolded parts_zero_to_many_nines range_nines]
    by (simp add: max_safe_integer_def)
  have e: "\<not> well_formed_range ''bytes=-500''" "\<not> well_formed_range ''bytes=5''"
    "\<not> well_formed_range (''0-'' @ many_nines)"
    by (simp_all add: well_formed_range_def is_digit_def Let_def)
  show ?thesis
    using a b c d e by simp
qed

subsection \<open>Claim C10: ranges are not checked against the file size\<close>

text \<open>
  Claim C10 says that every header of the numeric form \<open>bytes=s-e\<close> is answered 206,
  also when \<open>s > e\<close>. For \<open>bytes=10-5\<close> the route sets status 206 and the headers, but
  the read stream refuses a start after the end when it is created, and the handler of
  line 405 answers status 500.
\<close>

theorem range_start_after_end_counterexample:
  "snd (stream_route example_env
          (encode_id ''/usr/local/WowzaStreamingEngine/content/alice/clips/a.mp4'')
          ''alice'' (Some ''bytes=10-5'')) = JsonResponse 500 LocalFileError"
  by (simp add: example_route [OF alice_owns_example example_file_name] eval_range)

text \<open>
  Claim C10, amended. The range branch of the stream route never compares the offsets
  with the size of the file. For a cached file of size \<open>S\<close> whose name is accepted as a
  header value, and a header \<open>bytes=s-e\<close>:
  \<^item> when \<open>s \<le> e \<le> 2^53 - 1\<close>, the answer is 206 with Content-Range \<open>bytes s-e/S\<close>
    and Content-Length \<open>e - s + 1\<close>, and the read stream is opened on the raw offsets
    \<open>s\<close> and \<open>e\<close>, also when \<open>e \<ge> S\<close> or \<open>s \<ge> S\<close>;
  \<^item> when \<open>s \<le> 2^53 - 1\<close> and \<open>e\<close> is so large that \<open>parseInt\<close> gives infinity
    (from \<open>2^1024 - 2^970\<close> on), the answer is 206 with Content-Range
    \<open>bytes s-Infinity/S\<close> and Content-Length \<open>Infinity\<close>, the read stream running
    from \<open>s\<close> without an end;
  \<^item> in every other case, so when \<open>s > e\<close>, the read stream refuses the offsets and
    the answer is status 500.
\<close>

theorem range_not_checked_against_size:
  assumes "str_includes (decode_id videoId) (owner_pattern userLogin)"
    and "dbServerRows env = Some rows"
    and "getVideoStream env (case rows of [] \<Rightarrow> 1 | r # _ \<Rightarrow> r) (decode_id videoId) videoId
           = Inr \<lparr> sr_success = True, sr_type = ''local'', sr_path = cachePath \<rparr>"
    and "fsStat env cachePath = Some fileSize"
    and "header_value_ok (basename (decode_id videoId))"
    and "list_all is_digit ds" and "ds \<noteq> []"
    and "list_all is_digit es" and "es \<noteq> []"
  shows "snd (stream_route env videoId userLogin (Some (''bytes='' @ ds @ ''-'' @ es))) =
     (if digits_val ds \<le> digits_val es \<and> int (digits_val es) \<le> max_safe_integer
      then FileResponse 206 (Num (int (digits_val es) - int (digits_val ds) + 1))
             (Some (Num (int (digits_val ds)), Num (int (digits_val es)), Num (int fileSize)))
             (Some (Num (int (digits_val ds)), Num (int (digits_val es))))
      else if int (digits_val ds) \<le> max_safe_integer \<and> infinity_threshold \<le> digits_val es
      then FileResponse 206 PosInfinity
             (Some (Num (int (digits_val ds)), PosInfinity, Num (int fileSize)))
             (Some (Num (int (digits_val ds)), PosInfinity))
      else JsonResponse 500 LocalFileError)"
  unfolding stream_route_local [OF assms(1-5)]
  using assms(6-9) by (rule serve_local_numeric)

theorem range_not_checked_against_size_witness:
  "snd (stream_route example_env
          (encode_id ''/usr/local/WowzaStreamingEngine/content/alice/clips/a.mp4'')
          ''alice'' (Some ''bytes=100-5000''))
     = FileResponse 206 (Num 4901) (Some (Num 100, Num 5000, Num 1000))
         (Some (Num 100, Num 5000)) \<and>
   snd (stream_route example_env
          (encode_id ''/usr/local/WowzaStreamingEngine/content/alice/clips/a.mp4'')
          ''alice'' (Some ''bytes=2000-1999'')) = JsonResponse 500 LocalFileError \<and>
   snd (stream_route example_env
          (encode_id ''/usr/local/WowzaStreamingEngine/content/alice/clips/a.mp4'')
          ''alice'' (Some (''bytes=7-'' @ many_nines)))
     = FileResponse 206 PosInfinity (Some (Num 7, PosInfinity, Num 1000))
         (Some (Num 7, PosInfinity))"
proof -
  let ?vid = "encode_id ''/usr/local/WowzaStreamingEngine/content/alice/clips/a.mp4''"
  note inst = range_not_checked_against_size [OF example_hyps]
  have a: "snd (stream_route example_env ?vid ''alice'' (Some (''bytes='' @ ''100'' @ ''-'' @ ''5000'')))
      = FileResponse 206 (Num 4901) (Some (Num 100, Num 5000, Num 1000))
          (Some (Num 100, Num 5000))"
    by (subst inst) (simp_all add: is_digit_def digits_val_def digit_val_def max_safe_integer_def)
  have b: "snd (stream_route example_env ?vid ''alice'' (Some (''bytes='' @ ''2000'' @ ''-'' @ ''1999'')))
      = JsonResponse 500 LocalFileError"
    by (subst inst)
       (simp_all add: is_digit_def digits_val_def digit_val_def max_safe_integer_def
          infinity_threshold_def)
  have seven: "digits_val ''7'' = 7" "list_all is_digit ''7''"
    by (simp_all add: digits_val_def digit_val_def is_digit_def)
  have unsafe: "\<not> int (digits_val many_nines) \<le> max_safe_integer"
    using many_nines_infinite threshold_large by (simp add: max_safe_integer_def)
  have c: "snd (stream_route example_env ?vid ''alice'' (Some (''bytes='' @ ''7'' @ ''-'' @ many_nines)))
      = FileResponse 206 PosInfinity (Some (Num 7, PosInfinity, Num 1000))
          (Some (Num 7, PosInfinity))"
    using inst [of "''7''" many_nines] seven many_nines_facts(1,2) many_nines_infinite unsafe
    by (simp add: max_safe_integer_def)
  show ?thesis
    using a b c by simp
qed

subsection \<open>Claim C8: the ownership test\<close>

text \<open>
  Claim C8: a stream request whose decoded path has an owner segment other than the
  caller's login is answered 403 before any remote operation. The route tests instead
  whether the decoded path contains \<open>/login/\<close> anywhere (line 342). Evaluated at a video
  of \<open>alice\<close> in a folder named \<open>bob\<close>, requested by \<open>bob\<close>: the owner segment is
  \<open>alice\<close>, yet the route queries the database, asks the manager for the video (the
  remote transfer), and serves the file with status 200.
\<close>

theorem owner_test_is_substring_test:
  "owner_segment ''/usr/local/WowzaStreamingEngine/content/alice/bob/clip.mp4'' = Some ''alice''
   \<and> stream_route example_env
        (encode_id ''/usr/local/WowzaStreamingEngine/content/alice/bob/clip.mp4'') ''bob'' None
     = ([DbExecute,
         GetVideoStream 3 ''/usr/local/WowzaStreamingEngine/content/alice/bob/clip.mp4''
           (encode_id ''/usr/local/WowzaStreamingEngine/content/alice/bob/clip.mp4''),
         FsStat ''/tmp/video-cache/clip'',
         CreateReadStream ''/tmp/video-cache/clip''],
        FileResponse 200 (Num 1000) None None)"
  by (simp add: stream_route_def Let_def decode_encode_path example_env_def owner_pattern_def
      serve_local_def owner_segment_def content_root_def basename_def ascii_header_char_def)

section \<open>The origin proxy: the retry after 401 or 403\<close>




section \<open>The download coordinator and the disk cache\<close>

subsection \<open>The example video\<close>

lemma example_id_encodes_example_path: "encode_id example_path = example_id"
  by (simp add: encode_id_def example_path_def example_id_def bytes_of_def base64_char_def
      char_of_eq_iff)

lemma example_local_path:
  "local_path example_path example_id =
     ''/tmp/video-cache/L3Vzci9sb2NhbC9Xb3d6YVN0cmVhbWluZ0VuZ2luZS9jb250ZW50L2FsaWNlL2NsaXBzL2EubXA0_a.mp4''"
  by (simp add: local_path_def path_join_def tempDir_def basename_def example_path_def
      example_id_def)

subsection \<open>The directory\<close>

lemma map_of_unlink_same: "map_of (unlink name d) name = None"
  by (induction d) (auto simp: unlink_def)






lemmas step_defs =
  init_def call_step_def stat_done_def cache_hit_def start_download_def in_phase_def
  set_phase_def file_opened_def put_file_def data_step_def stream_fails_def
  connect_fails_def write_finished_def settle_def unlink_def resume_def Let_def
  is_fresh_def is_stale_def freshThreshold_def maxAge_def cleanupOldFiles_def
  clearCache_def

subsection \<open>Calls that find a download in the queue\<close>

text \<open>
  A call that finds the identifier in \<open>downloadQueue\<close> returns the promise of the queue
  and changes nothing else: it starts no transfer.
\<close>

lemma call_joins_registered_download:
  "downloadQueue s videoId = Some p \<Longrightarrow>
   step (Call serverId remotePath videoId) s =
     s\<lparr> calls := calls s @ [Returned (SharedPromise p)] \<rparr>"
  by (simp add: call_step_def)

subsection \<open>Claim C2: concurrent calls for one identifier\<close>

text \<open>
  Claim C2: for concurrent requests of one uncached identifier exactly one remote transfer
  is started, and no second transfer of the identifier runs at the same time. The test of
  the queue (line 119) and the entry into the queue (line 197) are separated by
  \<^verbatim>\<open>await fs.stat\<close> (line 128), so a second call can pass the test before the first
  call has registered its promise. Evaluated on three calls for the example video: the
  second call arrives while the first awaits \<open>stat\<close>; the third arrives after the first
  has registered its download and shares its promise; then the second call starts a
  transfer of its own and replaces the entry of the queue. Two transfers stream into the
  same cache file.
\<close>

theorem concurrent_first_calls_start_two_transfers:
  "let s = run [Call 1 example_path example_id, Call 1 example_path example_id, StatDone 0,
                Call 1 example_path example_id, StatDone 1,
                Connected 0, Connected 1, SftpReady 0, SftpReady 1] init
   in calls s = [AwaitDownload example_id 0, AwaitDownload example_id 1,
                 Returned (SharedPromise 0)]
      \<and> promises s = [Pending, Pending]
      \<and> map t_phase (transfers s) = [Streaming, Streaming]
      \<and> map t_localPath (transfers s) =
           [local_path example_path example_id, local_path example_path example_id]
      \<and> length (active_transfers s (local_path example_path example_id)) = 2
      \<and> downloadQueue s example_id = Some 1"
  by (simp add: step_defs active_transfers_def active_def)

text \<open>
  The same gap in another order: when the first transfer has opened its file before the
  \<open>stat\<close> of the second call settles, the second call takes the file that is being
  written for a cache hit.
\<close>

lemma late_stat_takes_partial_file_for_hit:
  "let s = run [Call 1 example_path example_id, Call 1 example_path example_id, StatDone 0,
                Connected 0, SftpReady 0, FileOpened 0, Data 0 100, StatDone 1] init
   in map t_phase (transfers s) = [Streaming]
      \<and> promises s = [Pending]
      \<and> calls s ! 1 = Returned (Value
            \<lparr> localPath = local_path example_path example_id, downloadedBytes = None,
              cached = True \<rparr>)"
  by (simp add: step_defs)

subsection \<open>Claim C3: the cache test\<close>

text \<open>
  Claim C3 says that a call for an identifier whose cache file is younger than one hour
  returns the cached file with \<open>cached = true\<close>. The queue is tested first: while a
  download of the identifier is registered, its cache file exists and is young (it is
  being written), and a call returns the promise of that download, which is fulfilled
  with \<open>cached = false\<close>.
\<close>

theorem cache_test_after_queue_counterexample:
  "let s = run [Call 1 example_path example_id, StatDone 0, Connected 0, SftpReady 0,
                FileOpened 0, Data 0 100, Tick 5] init;
       s' = run [Call 1 example_path example_id, Data 0 100, WriteFinished 0] s
   in map_of (tempFiles s) (local_path example_path example_id) = Some \<lparr> mtime = 0, ino = 0 \<rparr>
      \<and> now s - 0 < 60 * 60 * 1000
      \<and> calls s' ! 1 = Returned (SharedPromise 0)
      \<and> outcome s' (calls s' ! 1) =
           Fulfilled \<lparr> localPath = local_path example_path example_id,
                       downloadedBytes = Some 200, cached = False \<rparr>"
  by (simp add: step_defs)

text \<open>
  Claim C3, amended. For every identifier that has no download in the queue: when its
  cache file exists with an age strictly below one hour, \<^verbatim>\<open>downloadVideoToTemp\<close> returns
  the cached file with \<open>cached = true\<close> and changes nothing else (no promise, no
  transfer, no entry in the queue); when the file is missing or its age is one hour or
  more, the call starts a fresh transfer and registers its promise. (With a download in
  the queue the call returns the promise of that download.)
\<close>

theorem cache_hit_when_not_in_flight:
  assumes "downloadQueue s videoId = None"
  shows "let lp = local_path remotePath videoId;
             c = length (calls s);
             p = length (promises s);
             s' = run [Call serverId remotePath videoId, StatDone c] s;
             hit = (case map_of (tempFiles s) lp of
                      None \<Rightarrow> False
                    | Some stats \<Rightarrow> now s - mtime stats < 60 * 60 * 1000)
         in (hit \<longrightarrow>
               s' = s\<lparr> calls := calls s @ [Returned (Value
                          \<lparr> localPath = lp, downloadedBytes = None, cached = True \<rparr>)] \<rparr>)
          \<and> (\<not> hit \<longrightarrow>
               transfers s' = transfers s @
                 [\<lparr> t_promise = p, t_serverId = serverId, t_remotePath = remotePath,
                    t_localPath = lp, t_phase = Connecting, t_bytes = 0, t_ino = None \<rparr>]
               \<and> promises s' = promises s @ [Pending]
               \<and> downloadQueue s' = (downloadQueue s)(videoId \<mapsto> p)
               \<and> calls s' = calls s @ [AwaitDownload videoId p]
               \<and> tempFiles s' = tempFiles s)"
  using assms
  by (auto simp add: step_defs split: option.splits)

theorem cache_hit_when_not_in_flight_witness:
  "(let s = run [Call 1 example_path example_id, StatDone 0, Connected 0, SftpReady 0,
                 FileOpened 0, Data 0 100, WriteFinished 0, Resume 0, Tick 3599999] init
    in downloadQueue s example_id = None
       \<and> run [Call 1 example_path example_id, StatDone 1] s =
           s\<lparr> calls := calls s @ [Returned (Value
                \<lparr> localPath = local_path example_path example_id, downloadedBytes = None,
                  cached = True \<rparr>)] \<rparr>)
   \<and> (let s = run [Call 1 example_path example_id, StatDone 0, Connected 0, SftpReady 0,
                   FileOpened 0, Data 0 100, WriteFinished 0, Resume 0, Tick 3600000] init
      in downloadQueue s example_id = None
         \<and> map t_phase (transfers (run [Call 1 example_path example_id, StatDone 1] s)) =
             [Finished, Connecting]
         \<and> downloadQueue (run [Call 1 example_path example_id, StatDone 1] s) example_id = Some 1)"
proof -
  define s1 where "s1 = run [Call 1 example_path example_id, StatDone 0, Connected 0, SftpReady 0,
                 FileOpened 0, Data 0 100, WriteFinished 0, Resume 0, Tick 3599999] init"
  define s2 where "s2 = run [Call 1 example_path example_id, StatDone 0, Connected 0, SftpReady 0,
                 FileOpened 0, Data 0 100, WriteFinished 0, Resume 0, Tick 3600000] init"
  have s1: "s1 = \<lparr> now = 3599999,
      tempFiles = [(local_path example_path example_id, \<lparr> mtime = 0, ino = 0 \<rparr>)],
      nextIno = 1, downloadQueue = Map.empty,
      promises = [Fulfilled \<lparr> localPath = local_path example_path example_id,
                     downloadedBytes = Some 100, cached = False \<rparr>],
      transfers = [\<lparr> t_promise = 0, t_serverId = 1, t_remotePath = example_path,
                     t_localPath = local_path example_path example_id, t_phase = Finished,
                     t_bytes = 100, t_ino = Some 0 \<rparr>],
      calls = [Returned (Value \<lparr> localPath = local_path example_path example_id,
                     downloadedBytes = Some 100, cached = False \<rparr>)] \<rparr>"
    unfolding s1_def by (simp add: step_defs)
  have s2: "s2 = s1\<lparr> now := 3600000 \<rparr>"
    unfolding s2_def s1 by (simp add: step_defs)
  have q1: "downloadQueue s1 example_id = None"
    by (simp add: s1)
  have q2: "downloadQueue s2 example_id = None"
    by (simp add: s2 s1)
  have a: "run [Call 1 example_path example_id, StatDone 1] s1 =
           s1\<lparr> calls := calls s1 @ [Returned (Value
                \<lparr> localPath = local_path example_path example_id, downloadedBytes = None,
                  cached = True \<rparr>)] \<rparr>"
    using cache_hit_when_not_in_flight [OF q1, of example_path 1] by (simp add: s1 Let_def)
  have b: "map t_phase (transfers (run [Call 1 example_path example_id, StatDone 1] s2)) =
             [Finished, Connecting]
         \<and> downloadQueue (run [Call 1 example_path example_id, StatDone 1] s2) example_id = Some 1"
    using cache_hit_when_not_in_flight [OF q2, of example_path 1] by (simp add: s2 s1 Let_def)
  show ?thesis
    using a b q1 q2 unfolding s1_def s2_def Let_def by blast
qed

subsection \<open>Claim C4: failed downloads\<close>

text \<open>
  Claim C4. When a download fails with an I/O error, the partial local file is deleted,
  the entry of the identifier is removed from the queue, and the initiating call and
  every call that shares the promise observe the same error. For an error of the read
  stream or of the write stream the handler unlinks the cache file; when the connection
  or the SFTP channel fails the transfer has not created a file, and the directory is
  as it was. The initiating call runs on at once after the promise is rejected.
\<close>

theorem failed_download_is_cleaned_up:
  assumes "t < length (transfers s)"
    and "t_promise (transfers s ! t) = p"
    and "t_localPath (transfers s ! t) = lp"
    and "p < length (promises s)"
    and "promises s ! p = Pending"
    and "c < length (calls s)"
    and "calls s ! c = AwaitDownload videoId p"
  shows "(t_phase (transfers s ! t) = Streaming \<longrightarrow>
            map_of (tempFiles (run [ReadFails t e, Resume c] s)) lp = None
            \<and> failure_observed (run [ReadFails t e, Resume c] s) c videoId p e
            \<and> map_of (tempFiles (run [WriteFails t e, Resume c] s)) lp = None
            \<and> failure_observed (run [WriteFails t e, Resume c] s) c videoId p e)
     \<and> (t_phase (transfers s ! t) = Connecting \<longrightarrow>
            tempFiles (run [ConnectFails t e, Resume c] s) = tempFiles s
            \<and> failure_observed (run [ConnectFails t e, Resume c] s) c videoId p e)
     \<and> (t_phase (transfers s ! t) = OpeningSftp \<longrightarrow>
            tempFiles (run [SftpFails t e, Resume c] s) = tempFiles s
            \<and> failure_observed (run [SftpFails t e, Resume c] s) c videoId p e)"
proof -
  have stream: "map_of (tempFiles (resume c (stream_fails t e s))) lp = None
      \<and> failure_observed (resume c (stream_fails t e s)) c videoId p e"
    using assms
    by (auto simp: stream_fails_def resume_def settle_def set_phase_def Let_def
        failure_observed_def map_of_unlink_same list_all_iff set_conv_nth nth_list_update)
  have conn: "tempFiles (resume c (connect_fails t e s)) = tempFiles s
      \<and> failure_observed (resume c (connect_fails t e s)) c videoId p e"
    using assms
    by (auto simp: connect_fails_def resume_def settle_def set_phase_def Let_def
        failure_observed_def list_all_iff set_conv_nth nth_list_update)
  show ?thesis
    using stream conn assms(1) by (simp add: in_phase_def)
qed

theorem failed_download_is_cleaned_up_witness:
  "let s = run [Call 1 example_path example_id, StatDone 0, Call 1 example_path example_id,
                Connected 0, SftpReady 0, FileOpened 0, Data 0 100] init;
       s' = run [ReadFails 0 (IoError 7), Resume 0] s
   in map_of (tempFiles s) (local_path example_path example_id) = Some \<lparr> mtime = 0, ino = 0 \<rparr>
      \<and> map_of (tempFiles s') (local_path example_path example_id) = None
      \<and> downloadQueue s' example_id = None
      \<and> calls s' = [Returned (Thrown (IoError 7)), Returned (SharedPromise 0)]
      \<and> outcome s' (calls s' ! 1) = Rejected (IoError 7)"
proof -
  define s where "s = run [Call 1 example_path example_id, StatDone 0,
      Call 1 example_path example_id, Connected 0, SftpReady 0, FileOpened 0, Data 0 100] init"
  have s: "s = \<lparr> now = 0,
      tempFiles = [(local_path example_path example_id, \<lparr> mtime = 0, ino = 0 \<rparr>)],
      nextIno = 1, downloadQueue = [example_id \<mapsto> 0],
      promises = [Pending],
      transfers = [\<lparr> t_promise = 0, t_serverId = 1, t_remotePath = example_path,
                     t_localPath = local_path example_path example_id, t_phase = Streaming,
                     t_bytes = 100, t_ino = Some 0 \<rparr>],
      calls = [AwaitDownload example_id 0, Returned (SharedPromise 0)] \<rparr>"
    unfolding s_def by (simp add: step_defs)
  have hyps: "0 < length (transfers s)" "t_promise (transfers s ! 0) = 0"
    "t_localPath (transfers s ! 0) = local_path example_path example_id"
    "0 < length (promises s)" "promises s ! 0 = Pending"
    "0 < length (calls s)" "calls s ! 0 = AwaitDownload example_id 0"
    by (simp_all add: s)
  have streaming: "t_phase (transfers s ! 0) = Streaming"
    by (simp add: s)
  have calls: "calls (run [ReadFails 0 (IoError 7), Resume 0] s) =
      [Returned (Thrown (IoError 7)), Returned (SharedPromise 0)]"
    by (simp add: s step_defs)
  from failed_download_is_cleaned_up [OF hyps, of "IoError 7"] streaming
  have "map_of (tempFiles (run [ReadFails 0 (IoError 7), Resume 0] s))
          (local_path example_path example_id) = None"
    and "failure_observed (run [ReadFails 0 (IoError 7), Resume 0] s) 0 example_id 0 (IoError 7)"
    by simp_all
  then show ?thesis
    unfolding s_def [symmetric] Let_def
    using calls by (simp add: failure_observed_def s)
qed

subsection \<open>Claim C6: the two thresholds\<close>

text \<open>
  Claim C6 says that the maximum age of the sweep is strictly larger than the freshness
  threshold of the cache test. Both are one hour.
\<close>

theorem sweep_threshold_not_larger_counterexample: "\<not> freshThreshold < maxAge"
  by (simp add: freshThreshold_def maxAge_def)

text \<open>
  Claim C6, amended. The maximum age of the sweep is equal to the freshness threshold
  of the cache test (3600000 milliseconds, written as a literal in each of the two
  places). The sweep deletes a file only when its age is strictly above the threshold
  and the cache test accepts it only when its age is strictly below, so no file is
  at once a cache hit and due for deletion.
\<close>

theorem sweep_threshold_equals_fresh_threshold:
  "maxAge = freshThreshold \<and> maxAge = 3600000 \<and> \<not> (is_fresh tnow f \<and> is_stale tnow f)"
  by (simp add: freshThreshold_def maxAge_def is_fresh_def is_stale_def)

subsection \<open>Claim C7: sweep and clear against active downloads\<close>




end
